theory Spec2Isabelle
  imports Complex_Main
begin

section \<open>The binomial vanilla engine of project3/binomialengine.hpp\<close>

text \<open>
  The file defines one class template, \<^verbatim>\<open>BinomialVanillaEngine_2<T>\<close>: a constructor
  that checks the number of time steps, and \<^verbatim>\<open>calculate()\<close>, which flattens the market
  data, builds a tree of type \<^verbatim>\<open>T\<close>, rolls a discretized option back to time 0 and reads
  value, delta and gamma off the three nodes found there.

  \<^verbatim>\<open>Real\<close>, \<^verbatim>\<open>Rate\<close>, \<^verbatim>\<open>Volatility\<close> and \<^verbatim>\<open>Time\<close> (C++ doubles) are modelled as
  \<^typ>\<open>real\<close>: rounding, infinities and NaN are not part of the model. A division whose
  divisor is zero raises nothing in the source (it yields an infinity or NaN); no
  theorem below rests on the value of such a quotient. \<^verbatim>\<open>Size\<close> is \<^typ>\<open>nat\<close>.
  Every \<^verbatim>\<open>QL_REQUIRE\<close> and \<^verbatim>\<open>QL_ENSURE\<close> of the file is a branch that returns an
  \<open>error\<close>.
\<close>

subsection \<open>Failures\<close>

datatype error =
    TooFewTimeSteps nat
      \<comment> \<open>line 62: "at least 2 time steps required, n provided"\<close>
  | NonPositiveUnderlying
      \<comment> \<open>line 85: "negative or null underlying given"\<close>
  | NonPlainPayoff
      \<comment> \<open>line 108: "non-plain payoff given"\<close>
  | TreeRejected
      \<comment> \<open>the constructor of \<^verbatim>\<open>T\<close> refused its parameters (line 121)\<close>
  | NotThreeNodes
      \<comment> \<open>line 140: "Expect 3 nodes in grid at 0 step"\<close>

subsection \<open>Market data: the process and its term structures\<close>

text \<open>
  The term structures are collaborators of the engine; the engine only queries them.
  Each is a record of the queries \<^verbatim>\<open>calculate()\<close> and its callees make. A query is a
  total function: handles are linked and every date and strike is in range.
\<close>

type_synonym date = int

type_synonym day_counter = "date \<Rightarrow> date \<Rightarrow> real"
  \<comment> \<open>a day counter, given by its \<^verbatim>\<open>yearFraction(d1, d2)\<close>\<close>

type_synonym calendar = string

record yield_curve =
  yc_dayCounter :: day_counter
  yc_referenceDate :: date
  zeroRate :: "date \<Rightarrow> day_counter \<Rightarrow> real"
    \<comment> \<open>\<^verbatim>\<open>zeroRate(d, dc, Continuous, NoFrequency)\<close>\<close>
  zeroRateAt :: "real \<Rightarrow> real"
    \<comment> \<open>\<^verbatim>\<open>zeroRate(t, Continuous)\<close>\<close>

record vol_surface =
  vol_dayCounter :: day_counter
  vol_calendar :: calendar
  blackVol :: "date \<Rightarrow> real \<Rightarrow> real"
    \<comment> \<open>\<^verbatim>\<open>blackVol(maturity date, strike)\<close>\<close>
  localVol :: "real \<Rightarrow> real \<Rightarrow> real"
    \<comment> \<open>the local volatility the surface implies, \<^verbatim>\<open>localVol(t, underlying)\<close>\<close>

record bsm_process =
  stateVariable :: real
  dividendYield :: yield_curve
  riskFreeRate :: yield_curve
  blackVolatility :: vol_surface

text \<open>
  Modelled from the spec: the classes \<^verbatim>\<open>FlatForward\<close> and \<^verbatim>\<open>BlackConstantVol\<close> are not in
  src/. The spec (FlatCurveSnapshot) calls them constant-coefficient curve objects:
  each answers every query with the one number it was built from.
\<close>

definition FlatForward :: "date \<Rightarrow> real \<Rightarrow> day_counter \<Rightarrow> yield_curve" where
  "FlatForward referenceDate rate dc =
     \<lparr>yc_dayCounter = dc, yc_referenceDate = referenceDate,
      zeroRate = (\<lambda>d dc'. rate), zeroRateAt = (\<lambda>t. rate)\<rparr>"

definition BlackConstantVol :: "date \<Rightarrow> calendar \<Rightarrow> real \<Rightarrow> day_counter \<Rightarrow> vol_surface" where
  "BlackConstantVol referenceDate cal v dc =
     \<lparr>vol_dayCounter = dc, vol_calendar = cal,
      blackVol = (\<lambda>d strike. v), localVol = (\<lambda>t u. v)\<rparr>"

definition GeneralizedBlackScholesProcess ::
  "real \<Rightarrow> yield_curve \<Rightarrow> yield_curve \<Rightarrow> vol_surface \<Rightarrow> bsm_process" where
  "GeneralizedBlackScholesProcess x0 dividendTS riskFreeTS blackVolTS =
     \<lparr>stateVariable = x0, dividendYield = dividendTS, riskFreeRate = riskFreeTS,
      blackVolatility = blackVolTS\<rparr>"

subsection \<open>The option: payoff and exercise\<close>

datatype option_type = Call | Put

text \<open>
  \<^verbatim>\<open>arguments_.payoff\<close> points to a payoff object; the dynamic cast of line 107 succeeds
  exactly when the object is a \<^verbatim>\<open>PlainVanillaPayoff\<close> (an option type and one strike).
  Any other payoff is given by its evaluation function.

  Modelled from the spec: the payoff classes are not in src/. A payoff object evaluates
  a price of the underlying to a real; the plain call pays the price over the strike,
  the plain put the strike over the price, and neither pays less than 0.
\<close>

datatype payoff =
    PlainVanillaPayoff option_type real
  | OtherPayoff "real \<Rightarrow> real"

fun payoff_value :: "payoff \<Rightarrow> real \<Rightarrow> real" where
  "payoff_value (PlainVanillaPayoff Call strike) price = max (price - strike) 0"
| "payoff_value (PlainVanillaPayoff Put strike) price = max (strike - price) 0"
| "payoff_value (OtherPayoff f) price = f price"

record exercise =
  lastDate :: date
  earlyExercise :: bool
    \<comment> \<open>whether exercise is permitted before the last date\<close>

record arguments =
  payoff :: payoff
  exercise :: exercise

record results =
  results_value :: real
  results_delta :: real
  results_gamma :: real
  results_theta :: real

subsection \<open>The engine and its constructor (lines 57-66)\<close>

record engine =
  process :: bsm_process
  timeSteps :: nat

definition BinomialVanillaEngine_2 :: "bsm_process \<Rightarrow> nat \<Rightarrow> error + engine" where
  "BinomialVanillaEngine_2 p n =
     (if n \<ge> 2 then Inr \<lparr>process = p, timeSteps = n\<rparr>
      else Inl (TooFewTimeSteps n))"

subsection \<open>The tree and the lattice\<close>

text \<open>
  The template argument \<^verbatim>\<open>T\<close> is the tree-parameterization strategy. Its constructor is
  called at line 121 with the flattened process, the maturity, the number of steps and
  the strike; it is a parameter of the model: a function that returns the up factor,
  the down factor and the probability of an up move, or nothing when it refuses its
  parameters.
\<close>

record geometry =
  up :: real
  down :: real
  pu :: real

type_synonym tree_builder = "bsm_process \<Rightarrow> real \<Rightarrow> nat \<Rightarrow> real \<Rightarrow> geometry option"

record tree =
  tree_x0 :: real
  tree_geometry :: geometry

text \<open>
  Modelled from the spec: the tree classes are not in src/. A tree object is the spot of
  the process it was built from, together with the factors of its strategy.
\<close>

definition new_tree :: "tree_builder \<Rightarrow> bsm_process \<Rightarrow> real \<Rightarrow> nat \<Rightarrow> real \<Rightarrow> tree option" where
  "new_tree T bs maturity steps strike =
     (case T bs maturity steps strike of
        None \<Rightarrow> None
      | Some g \<Rightarrow> Some \<lparr>tree_x0 = stateVariable bs, tree_geometry = g\<rparr>)"

record bs_lattice =
  lat_tree :: tree
  lat_discount :: real
  lat_steps :: nat

text \<open>
  Modelled from the spec: \<^verbatim>\<open>BlackScholesLattice\<close> is not in src/. The spec's PriceLattice
  combines the tree with discounting; the one-step discount factor is that of the
  continuously compounded rate \<open>r\<close> over one step of length \<open>maturity / steps\<close>.
\<close>

definition BlackScholesLattice :: "tree \<Rightarrow> real \<Rightarrow> real \<Rightarrow> nat \<Rightarrow> bs_lattice" where
  "BlackScholesLattice t r maturity steps =
     \<lparr>lat_tree = t, lat_discount = exp (- r * (maturity / real steps)), lat_steps = steps\<rparr>"

text \<open>
  Modelled from the spec: the node layout of the tree is not in src/. The spec's
  NodeValueVector has one value per node; a recombining tree gains one node per step,
  and this engine's tree is extended backwards so that step 0 has exactly 3 nodes
  (down, mid, up) rather than 1. Step \<open>i\<close> therefore has \<open>i + 3\<close> nodes.
\<close>

definition lattice_size :: "bs_lattice \<Rightarrow> nat \<Rightarrow> nat" where
  "lattice_size lat i = i + 3"

text \<open>
  Modelled from the spec: \<^verbatim>\<open>underlying(i, index)\<close> is not in src/. The spec's price at
  (step, node) is spot * up^node * down^(step - node), the node being counted from the
  root; index 0 is the lowest price and the lattice is centred on its root. With three
  nodes at step 0 the root is the node of index 1 (lines 141-143 label the indices
  2, 1, 0 as the nodes 1, 0, -1), so the node of index \<open>index\<close> is the node
  \<open>index - 1\<close>.
\<close>

definition underlying :: "bs_lattice \<Rightarrow> nat \<Rightarrow> nat \<Rightarrow> real" where
  "underlying lat i index =
     (let t = lat_tree lat; g = tree_geometry t; node = int index - 1
      in tree_x0 t * up g powi node * down g powi (int i - node))"

subsection \<open>The discretized option: initialization and rollback\<close>

text \<open>
  Modelled from the spec: \<^verbatim>\<open>TimeGrid\<close> is not in src/. It is the sequence of \<open>steps + 1\<close>
  uniformly spaced times from 0 to \<open>end\<close>.
\<close>

definition TimeGrid :: "real \<Rightarrow> nat \<Rightarrow> real list" where
  "TimeGrid end_time steps = map (\<lambda>i. (end_time / real steps) * real i) [0..<steps + 1]"

record discretized_option =
  opt_arguments :: arguments
  opt_grid :: "real list"
  opt_step :: nat
  opt_values :: "real list"

text \<open>
  Modelled from the spec: \<^verbatim>\<open>DiscretizedVanillaOption\<close> is not in src/. Its state is the
  current step and one value per node of that step (spec, DiscretizedOption); a new
  object holds no values yet.
\<close>

definition DiscretizedVanillaOption ::
  "arguments \<Rightarrow> bsm_process \<Rightarrow> real list \<Rightarrow> discretized_option" where
  "DiscretizedVanillaOption args p grid =
     \<lparr>opt_arguments = args, opt_grid = grid, opt_step = 0, opt_values = []\<rparr>"

text \<open>
  Modelled from the spec: \<^verbatim>\<open>initialize\<close> is not in src/. It sets the step to the last
  one, \<open>N\<close> (the maturity is the last point of the grid), and the value of each node \<open>j\<close>
  of that step to the payoff of the node's price.
\<close>

definition initialize :: "discretized_option \<Rightarrow> bs_lattice \<Rightarrow> real \<Rightarrow> discretized_option" where
  "initialize opt lat t =
     (let n = lat_steps lat
      in opt\<lparr>opt_step := n,
             opt_values := map (\<lambda>j. payoff_value (payoff (opt_arguments opt)) (underlying lat n j))
                               [0..<lattice_size lat n]\<rparr>)"

text \<open>
  Modelled from the spec: the backward step is not in src/. The step back to step \<open>i\<close>
  gives each node \<open>j\<close> of step \<open>i\<close> the value
  \<open>discountFactor * (p * value[j+1] + (1 - p) * value[j])\<close>, replaced by the larger of it
  and the payoff of the node's price when the option permits exercise there.
\<close>

definition stepback :: "bs_lattice \<Rightarrow> arguments \<Rightarrow> nat \<Rightarrow> real list \<Rightarrow> real list" where
  "stepback lat args i vs =
     map (\<lambda>j. let p = pu (tree_geometry (lat_tree lat));
                   continuation = lat_discount lat * (p * vs ! (j + 1) + (1 - p) * vs ! j)
               in if earlyExercise (exercise args)
                  then max continuation (payoff_value (payoff args) (underlying lat i j))
                  else continuation)
         [0..<lattice_size lat i]"

text \<open>
  Modelled from the spec: \<^verbatim>\<open>rollback\<close> is not in src/. It repeats the backward step
  until the time of the current step is the target time. The only call, at line 138,
  has the target 0.0, which is the first point of the grid: from step \<open>k\<close> the loop steps
  back to \<open>k - 1\<close>, ..., 0.
\<close>

fun rollback_from :: "bs_lattice \<Rightarrow> arguments \<Rightarrow> nat \<Rightarrow> real list \<Rightarrow> real list" where
  "rollback_from lat args 0 vs = vs"
| "rollback_from lat args (Suc i) vs = rollback_from lat args i (stepback lat args i vs)"

definition rollback :: "discretized_option \<Rightarrow> bs_lattice \<Rightarrow> discretized_option" where
  "rollback opt lat =
     opt\<lparr>opt_step := 0,
         opt_values := rollback_from lat (opt_arguments opt) (opt_step opt) (opt_values opt)\<rparr>"

subsection \<open>Theta from the Black-Scholes equation\<close>

text \<open>
  Modelled from the spec: \<^verbatim>\<open>blackScholesTheta\<close> (ql/pricingengines/greeks.hpp) is not in
  src/. The spec has theta computed in closed form from value, delta and gamma by the
  Black-Scholes partial differential equation,
  \<open>theta + (r - q) S delta + 1/2 sigma^2 S^2 gamma = r V\<close>, with the spot, the rate, the
  dividend yield and the volatility of the process at the valuation point (time 0).
\<close>

definition blackScholesTheta :: "bsm_process \<Rightarrow> real \<Rightarrow> real \<Rightarrow> real \<Rightarrow> real" where
  "blackScholesTheta p v d g =
     (let u = stateVariable p;
          r = zeroRateAt (riskFreeRate p) 0;
          q = zeroRateAt (dividendYield p) 0;
          sigma = localVol (blackVolatility p) 0 u
      in r * v - (r - q) * u * d - (1 / 2) * sigma * sigma * u * u * g)"

subsection \<open>calculate (lines 77-161)\<close>

text \<open>
  \<^verbatim>\<open>calculate()\<close> reads the engine and \<^verbatim>\<open>arguments_\<close> and writes \<^verbatim>\<open>results_\<close>. The model
  takes the results object as it is before the call and returns the failure raised, if
  any, with the results object as the call leaves it. The definition follows the source
  line by line and keeps the names of its local variables.
\<close>

definition calculate ::
  "tree_builder \<Rightarrow> engine \<Rightarrow> arguments \<Rightarrow> results \<Rightarrow> error option \<times> results" where
  "calculate T e a results =
     (let rfdc = yc_dayCounter (riskFreeRate (process e));
          divdc = yc_dayCounter (dividendYield (process e));
          voldc = vol_dayCounter (blackVolatility (process e));
          volcal = vol_calendar (blackVolatility (process e));
          s0 = stateVariable (process e)
      in if \<not> s0 > 0 then (Some NonPositiveUnderlying, results)
         else
           let v = blackVol (blackVolatility (process e)) (lastDate (exercise a)) s0;
               maturityDate = lastDate (exercise a);
               r = zeroRate (riskFreeRate (process e)) maturityDate rfdc;
               q = zeroRate (dividendYield (process e)) maturityDate divdc;
               referenceDate = yc_referenceDate (riskFreeRate (process e));
               flatRiskFree = FlatForward referenceDate r rfdc;
               flatDividends = FlatForward referenceDate q divdc;
               flatVol = BlackConstantVol referenceDate volcal v voldc
           in case payoff a of
                OtherPayoff f \<Rightarrow> (Some NonPlainPayoff, results)
              | PlainVanillaPayoff ty strike \<Rightarrow>
                  let maturity = rfdc referenceDate maturityDate;
                      bs = GeneralizedBlackScholesProcess (stateVariable (process e))
                             flatDividends flatRiskFree flatVol;
                      grid = TimeGrid maturity (timeSteps e)
                  in (case new_tree T bs maturity (timeSteps e) strike of
                       None \<Rightarrow> (Some TreeRejected, results)
                     | Some tree \<Rightarrow>
                         let lattice = BlackScholesLattice tree r maturity (timeSteps e);
                             option = DiscretizedVanillaOption a (process e) grid;
                             option = initialize option lattice maturity;
                             option = rollback option lattice;
                             va = opt_values option
                         in if length va \<noteq> 3
                            then (Some NotThreeNodes, results)
                            else
                              let p0u = va ! 2;
                                  p0 = va ! 1;
                                  p0d = va ! 0;
                                  s0u = underlying lattice 0 2;
                                  s0d = underlying lattice 0 0;
                                  delta = (p0u - p0d) / (s0u - s0d);
                                  delta0u = (p0u - p0) / (s0u - s0);
                                  delta0d = (p0d - p0) / (s0d - s0);
                                  gamma = (delta0u - delta0d) / ((s0u - s0d) / 2);
                                  results = results\<lparr>results_value := p0\<rparr>;
                                  results = results\<lparr>results_delta := delta\<rparr>;
                                  results = results\<lparr>results_gamma := gamma\<rparr>;
                                  results = results\<lparr>results_theta :=
                                    blackScholesTheta (process e) (results_value results)
                                      (results_delta results) (results_gamma results)\<rparr>
                              in (None, results)))"

subsection \<open>Names for the local variables of calculate\<close>

text \<open>
  The theorems speak of the objects a call builds on its way. These definitions give
  them names, as functions of the engine and the arguments: the flattened volatility
  \<open>v\<close> (lines 86-87), the rates \<open>r\<close> and \<open>q\<close> (lines 89-92), the maturity (line 110) and the
  constant-coefficient process \<open>bs\<close> (lines 96-115); then, for a tree that has been
  built, the lattice (lines 124-125) and the node values \<open>va\<close> left by the rollback to
  time 0 (lines 117 and 131-139). Lemma \<open>calculate_unfold\<close> below states
  \<open>calculate\<close> in their terms.
\<close>

definition flatVolatility :: "engine \<Rightarrow> arguments \<Rightarrow> real" where
  "flatVolatility e a =
     blackVol (blackVolatility (process e)) (lastDate (exercise a)) (stateVariable (process e))"

definition flatRiskFreeRate :: "engine \<Rightarrow> arguments \<Rightarrow> real" where
  "flatRiskFreeRate e a =
     zeroRate (riskFreeRate (process e)) (lastDate (exercise a))
       (yc_dayCounter (riskFreeRate (process e)))"

definition flatDividendYield :: "engine \<Rightarrow> arguments \<Rightarrow> real" where
  "flatDividendYield e a =
     zeroRate (dividendYield (process e)) (lastDate (exercise a))
       (yc_dayCounter (dividendYield (process e)))"

definition maturityTime :: "engine \<Rightarrow> arguments \<Rightarrow> real" where
  "maturityTime e a =
     yc_dayCounter (riskFreeRate (process e))
       (yc_referenceDate (riskFreeRate (process e))) (lastDate (exercise a))"

definition flatProcess :: "engine \<Rightarrow> arguments \<Rightarrow> bsm_process" where
  "flatProcess e a =
     (let referenceDate = yc_referenceDate (riskFreeRate (process e));
          flatRiskFree = FlatForward referenceDate (flatRiskFreeRate e a)
                           (yc_dayCounter (riskFreeRate (process e)));
          flatDividends = FlatForward referenceDate (flatDividendYield e a)
                            (yc_dayCounter (dividendYield (process e)));
          flatVol = BlackConstantVol referenceDate (vol_calendar (blackVolatility (process e)))
                      (flatVolatility e a) (vol_dayCounter (blackVolatility (process e)))
      in GeneralizedBlackScholesProcess (stateVariable (process e))
           flatDividends flatRiskFree flatVol)"

definition priceLattice :: "engine \<Rightarrow> arguments \<Rightarrow> tree \<Rightarrow> bs_lattice" where
  "priceLattice e a t =
     BlackScholesLattice t (flatRiskFreeRate e a) (maturityTime e a) (timeSteps e)"

definition valuesAtZero :: "engine \<Rightarrow> arguments \<Rightarrow> tree \<Rightarrow> real list" where
  "valuesAtZero e a t =
     (let maturity = maturityTime e a;
          grid = TimeGrid maturity (timeSteps e);
          lattice = priceLattice e a t;
          opt = DiscretizedVanillaOption a (process e) grid;
          opt = initialize opt lattice maturity;
          opt = rollback opt lattice
      in opt_values opt)"

subsection \<open>calculate, with the outcome of the lattice code as a parameter\<close>

text \<open>
  Lines 117-139 and the two calls of \<^verbatim>\<open>lattice->underlying\<close> run code that is not in
  src/. \<open>calculate_with\<close> is \<^verbatim>\<open>calculate()\<close> with what that code returns taken as
  parameters: \<open>nodes e a tree\<close> stands for the array \<open>va\<close> of line 139 and
  \<open>prices e a tree i j\<close> for \<^verbatim>\<open>lattice->underlying(i, j)\<close>. Everything else is the source:
  the checks of lines 85, 108 and 140 in their order, the formulas of lines 141-151 and
  the four assignments of lines 154-160. Lemma \<open>calculate_with_instance\<close> below states
  that \<open>calculate\<close> is \<open>calculate_with\<close> at the lattice code modelled above.
\<close>

definition calculate_with ::
  "(engine \<Rightarrow> arguments \<Rightarrow> tree \<Rightarrow> real list) \<Rightarrow>
   (engine \<Rightarrow> arguments \<Rightarrow> tree \<Rightarrow> nat \<Rightarrow> nat \<Rightarrow> real) \<Rightarrow>
   tree_builder \<Rightarrow> engine \<Rightarrow> arguments \<Rightarrow> results \<Rightarrow> error option \<times> results" where
  "calculate_with nodes prices T e a results =
     (let s0 = stateVariable (process e)
      in if \<not> s0 > 0 then (Some NonPositiveUnderlying, results)
         else
           case payoff a of
             OtherPayoff f \<Rightarrow> (Some NonPlainPayoff, results)
           | PlainVanillaPayoff ty strike \<Rightarrow>
               (case new_tree T (flatProcess e a) (maturityTime e a) (timeSteps e) strike of
                  None \<Rightarrow> (Some TreeRejected, results)
                | Some tree \<Rightarrow>
                    let va = nodes e a tree
                    in if length va \<noteq> 3 then (Some NotThreeNodes, results)
                       else
                         let p0u = va ! 2;
                             p0 = va ! 1;
                             p0d = va ! 0;
                             s0u = prices e a tree 0 2;
                             s0d = prices e a tree 0 0;
                             delta = (p0u - p0d) / (s0u - s0d);
                             delta0u = (p0u - p0) / (s0u - s0);
                             delta0d = (p0d - p0) / (s0d - s0);
                             gamma = (delta0u - delta0d) / ((s0u - s0d) / 2);
                             results = results\<lparr>results_value := p0\<rparr>;
                             results = results\<lparr>results_delta := delta\<rparr>;
                             results = results\<lparr>results_gamma := gamma\<rparr>;
                             results = results\<lparr>results_theta :=
                               blackScholesTheta (process e) (results_value results)
                                 (results_delta results) (results_gamma results)\<rparr>
                         in (None, results)))"

definition latticePrices :: "engine \<Rightarrow> arguments \<Rightarrow> tree \<Rightarrow> nat \<Rightarrow> nat \<Rightarrow> real" where
  "latticePrices e a t i j = underlying (priceLattice e a t) i j"

text \<open>
  A tree strategy that probes the process it is handed: it reads the Black volatility of
  that process at date \<open>d\<close> and strike \<open>x\<close>, and accepts its parameters (returning the
  factors \<open>g\<close>) only when that volatility is \<open>v\<close>.
\<close>

definition accepts_volatility :: "date \<Rightarrow> real \<Rightarrow> real \<Rightarrow> geometry \<Rightarrow> tree_builder" where
  "accepts_volatility d x v g bs maturity steps strike =
     (if blackVol (blackVolatility bs) d x = v then Some g else None)"

subsection \<open>A worked example\<close>

text \<open>
  Spot 100, a volatility smile that is 20% at strike 100 and 21% at strike 110, a
  dividend yield of 2%, a zero risk-free rate, a call struck at 110 expiring in one
  year, two time steps, and a strategy that doubles or halves the price with equal
  probability.
\<close>

definition act365 :: day_counter where
  "act365 d1 d2 = real_of_int (d2 - d1) / 365"

definition ex_smile :: vol_surface where
  "ex_smile =
     \<lparr>vol_dayCounter = act365, vol_calendar = ''TARGET'',
      blackVol = (\<lambda>d strike. 1 / 5 + (strike - 100) / 1000),
      localVol = (\<lambda>t u. 1 / 5)\<rparr>"

definition ex_process :: bsm_process where
  "ex_process =
     GeneralizedBlackScholesProcess 100
       (FlatForward 0 (1 / 50) act365) (FlatForward 0 0 act365) ex_smile"

definition ex_builder :: tree_builder where
  "ex_builder bs maturity steps strike = Some \<lparr>up = 2, down = 1 / 2, pu = 1 / 2\<rparr>"

definition ex_tree :: tree where
  "ex_tree = \<lparr>tree_x0 = 100, tree_geometry = \<lparr>up = 2, down = 1 / 2, pu = 1 / 2\<rparr>\<rparr>"

definition ex_engine :: engine where
  "ex_engine = \<lparr>process = ex_process, timeSteps = 2\<rparr>"

definition ex_engine_null_spot :: engine where
  "ex_engine_null_spot = \<lparr>process = ex_process\<lparr>stateVariable := 0\<rparr>, timeSteps = 2\<rparr>"

definition ex_arguments :: arguments where
  "ex_arguments =
     \<lparr>payoff = PlainVanillaPayoff Call 110,
      exercise = \<lparr>lastDate = 365, earlyExercise = False\<rparr>\<rparr>"

definition ex_digital :: "real \<Rightarrow> real" where
  "ex_digital s = (if s > 110 then 1 else 0)"

definition ex_digital_arguments :: arguments where
  "ex_digital_arguments =
     \<lparr>payoff = OtherPayoff ex_digital,
      exercise = \<lparr>lastDate = 365, earlyExercise = False\<rparr>\<rparr>"

definition ex_results :: results where
  "ex_results =
     \<lparr>results_value = 0, results_delta = 0, results_gamma = 0, results_theta = 0\<rparr>"

text \<open>
  Further inputs: a strategy with no spread between the up and the down factor, under
  which the three prices at time 0 coincide; a put struck at 110; a strategy that refuses
  every parameter; and lattice code that leaves a single node value at time 0, as the
  root of an ordinary binomial tree does.
\<close>

definition ex_geometry :: geometry where
  "ex_geometry = \<lparr>up = 2, down = 1 / 2, pu = 1 / 2\<rparr>"

definition ex_flat_builder :: tree_builder where
  "ex_flat_builder bs maturity steps strike = Some \<lparr>up = 1, down = 1, pu = 1 / 2\<rparr>"

definition ex_flat_tree :: tree where
  "ex_flat_tree = \<lparr>tree_x0 = 100, tree_geometry = \<lparr>up = 1, down = 1, pu = 1 / 2\<rparr>\<rparr>"

definition ex_put_arguments :: arguments where
  "ex_put_arguments =
     \<lparr>payoff = PlainVanillaPayoff Put 110,
      exercise = \<lparr>lastDate = 365, earlyExercise = False\<rparr>\<rparr>"

definition ex_refusing_builder :: tree_builder where
  "ex_refusing_builder bs maturity steps strike = None"

definition ex_single_node :: "engine \<Rightarrow> arguments \<Rightarrow> tree \<Rightarrow> real list" where
  "ex_single_node e a t = [145 / 2]"

section \<open>Properties\<close>

subsection \<open>The shape of calculate\<close>

lemma calculate_unfold:
  "calculate T e a results =
     (if \<not> stateVariable (process e) > 0 then (Some NonPositiveUnderlying, results)
      else
        case payoff a of
          OtherPayoff f \<Rightarrow> (Some NonPlainPayoff, results)
        | PlainVanillaPayoff ty strike \<Rightarrow>
            (case new_tree T (flatProcess e a) (maturityTime e a) (timeSteps e) strike of
               None \<Rightarrow> (Some TreeRejected, results)
             | Some t \<Rightarrow>
                 let lattice = priceLattice e a t;
                     va = valuesAtZero e a t;
                     s0 = stateVariable (process e)
                 in if length va \<noteq> 3 then (Some NotThreeNodes, results)
                    else
                      let p0u = va ! 2;
                          p0 = va ! 1;
                          p0d = va ! 0;
                          s0u = underlying lattice 0 2;
                          s0d = underlying lattice 0 0;
                          delta = (p0u - p0d) / (s0u - s0d);
                          delta0u = (p0u - p0) / (s0u - s0);
                          delta0d = (p0d - p0) / (s0d - s0);
                          gamma = (delta0u - delta0d) / ((s0u - s0d) / 2)
                      in (None,
                          results\<lparr>results_value := p0, results_delta := delta,
                            results_gamma := gamma,
                            results_theta := blackScholesTheta (process e) p0 delta gamma\<rparr>)))"
  by (simp add: calculate_def flatProcess_def flatVolatility_def flatRiskFreeRate_def
      flatDividendYield_def maturityTime_def priceLattice_def valuesAtZero_def Let_def
      split: payoff.splits option.splits)

lemma calculate_failure:
  assumes "fst (calculate T e a rs) = Some err"
  shows "calculate T e a rs = (Some err, rs)"
  using assms
  by (auto simp: calculate_unfold Let_def split: if_splits payoff.splits option.splits)

text \<open>
  A call that returns normally had a positive spot, a plain payoff, a tree, and exactly
  three node values after the rollback (the check of line 140 passed).
\<close>

lemma calculate_success:
  assumes "calculate T e a rs = (None, rs')"
  shows "0 < stateVariable (process e) \<and>
         (\<exists>ty strike t. payoff a = PlainVanillaPayoff ty strike \<and>
            new_tree T (flatProcess e a) (maturityTime e a) (timeSteps e) strike = Some t \<and>
            length (valuesAtZero e a t) = 3)"
  using assms
  by (auto simp: calculate_unfold Let_def split: if_splits payoff.splits option.splits)

lemma calculate_results:
  assumes "payoff a = PlainVanillaPayoff ty strike"
    and "new_tree T (flatProcess e a) (maturityTime e a) (timeSteps e) strike = Some t"
    and "calculate T e a rs = (None, rs')"
  shows "rs' =
      (let va = valuesAtZero e a t; lattice = priceLattice e a t;
           s0 = stateVariable (process e);
           p0u = va ! 2; p0 = va ! 1; p0d = va ! 0;
           s0u = underlying lattice 0 2; s0d = underlying lattice 0 0;
           delta = (p0u - p0d) / (s0u - s0d);
           gamma = ((p0u - p0) / (s0u - s0) - (p0d - p0) / (s0d - s0)) / ((s0u - s0d) / 2)
       in rs\<lparr>results_value := p0, results_delta := delta, results_gamma := gamma,
              results_theta := blackScholesTheta (process e) p0 delta gamma\<rparr>)"
  using assms
  by (auto simp: calculate_unfold Let_def split: if_splits)

lemma calculate_with_instance:
  "calculate T e a rs = calculate_with valuesAtZero latticePrices T e a rs"
  by (simp add: calculate_unfold calculate_with_def latticePrices_def Let_def
      split: payoff.splits option.splits)

lemma calculate_with_failure:
  assumes "fst (calculate_with nodes prices T e a rs) = Some err"
  shows "calculate_with nodes prices T e a rs = (Some err, rs) \<and>
         (err = NonPositiveUnderlying \<or> err = NonPlainPayoff \<or> err = TreeRejected \<or>
          err = NotThreeNodes)"
  using assms
  by (auto simp: calculate_with_def Let_def split: if_splits payoff.splits option.splits)

lemma flatProcess_volatility:
  "blackVol (blackVolatility (flatProcess e a)) d x =
     blackVol (blackVolatility (process e)) (lastDate (exercise a)) (stateVariable (process e))"
  by (simp add: flatProcess_def flatVolatility_def Let_def
      GeneralizedBlackScholesProcess_def BlackConstantVol_def)

text \<open>
  With a positive spot and a plain payoff, a call fails with \<open>TreeRejected\<close> exactly when
  the strategy refuses the flattened process: that process is what the strategy is
  called with.
\<close>

lemma tree_built_from_flatProcess:
  assumes "0 < stateVariable (process e)" and "payoff a = PlainVanillaPayoff ty strike"
  shows "(fst (calculate T e a rs) = Some TreeRejected) =
         (T (flatProcess e a) (maturityTime e a) (timeSteps e) strike = None)"
  using assms
  by (auto simp: calculate_unfold new_tree_def Let_def split: option.splits if_splits)

subsection \<open>The node layout\<close>

lemma length_stepback: "length (stepback lat args i vs) = i + 3"
  by (simp add: stepback_def lattice_size_def)

lemma length_rollback_from:
  "length (rollback_from lat args k vs) = (if k = 0 then length vs else 3)"
proof (induction k arbitrary: vs)
  case 0
  show ?case by simp
next
  case (Suc k)
  show ?case by (simp add: Suc.IH length_stepback)
qed

lemma length_valuesAtZero: "length (valuesAtZero e a t) = 3"
  by (simp add: valuesAtZero_def Let_def rollback_def initialize_def
      DiscretizedVanillaOption_def length_rollback_from lattice_size_def)

lemma underlying_mid: "underlying (priceLattice e a t) 0 1 = tree_x0 t"
  by (simp add: underlying_def priceLattice_def BlackScholesLattice_def Let_def)

lemma new_tree_x0: "new_tree T bs m n k = Some t \<Longrightarrow> tree_x0 t = stateVariable bs"
  by (auto simp: new_tree_def split: option.splits)

lemma stateVariable_flatProcess:
  "stateVariable (flatProcess e a) = stateVariable (process e)"
  by (simp add: flatProcess_def Let_def GeneralizedBlackScholesProcess_def)

text \<open>
  With a positive spot and \<open>0 < down < up\<close>, index 0 is the lowest and index 2 the highest
  of the three prices at time 0.
\<close>

lemma time0_prices_ordered:
  assumes "0 < tree_x0 t" and "0 < down (tree_geometry t)"
    and "down (tree_geometry t) < up (tree_geometry t)"
  shows "underlying (priceLattice e a t) 0 0 < underlying (priceLattice e a t) 0 1 \<and>
         underlying (priceLattice e a t) 0 1 < underlying (priceLattice e a t) 0 2"
proof -
  define x d u where "x = tree_x0 t" and "d = down (tree_geometry t)"
    and "u = up (tree_geometry t)"
  have pos: "0 < x" "0 < d" "d < u" "0 < u"
    using assms by (simp_all add: x_def d_def u_def)
  have lo: "underlying (priceLattice e a t) 0 0 = x * (d / u)"
    by (simp add: underlying_def priceLattice_def BlackScholesLattice_def Let_def
        x_def d_def u_def divide_inverse mult.commute)
  have hi: "underlying (priceLattice e a t) 0 2 = x * (u / d)"
    by (simp add: underlying_def priceLattice_def BlackScholesLattice_def Let_def
        x_def d_def u_def divide_inverse)
  have mid: "underlying (priceLattice e a t) 0 1 = x"
    by (simp only: underlying_mid x_def)
  have "d / u < 1" and "1 < u / d"
    using pos by simp_all
  then have "x * (d / u) < x * 1" and "x * 1 < x * (u / d)"
    using pos(1) by (simp_all only: mult_less_cancel_left_pos)
  then show ?thesis
    unfolding lo hi mid by simp
qed

subsection \<open>The worked example, evaluated\<close>

lemma ex_tree_built:
  "new_tree ex_builder (flatProcess ex_engine ex_arguments)
     (maturityTime ex_engine ex_arguments) (timeSteps ex_engine) 110 = Some ex_tree"
  by (simp add: new_tree_def ex_builder_def ex_tree_def ex_engine_def ex_process_def
      flatProcess_def Let_def GeneralizedBlackScholesProcess_def)

lemma ex_payoff: "payoff ex_arguments = PlainVanillaPayoff Call 110"
  by (simp add: ex_arguments_def)

lemma ex_spot: "stateVariable (process ex_engine) = 100"
  by (simp add: ex_engine_def ex_process_def GeneralizedBlackScholesProcess_def)

lemma ex_theta:
  "blackScholesTheta (process ex_engine) v d g = 2 * d - 200 * g"
  by (simp add: blackScholesTheta_def ex_engine_def ex_process_def ex_smile_def
      GeneralizedBlackScholesProcess_def FlatForward_def Let_def)

lemma ex_values: "valuesAtZero ex_engine ex_arguments ex_tree = [0, 145 / 2, 1035 / 2]"
  by (simp add: valuesAtZero_def Let_def priceLattice_def BlackScholesLattice_def
      initialize_def rollback_def DiscretizedVanillaOption_def lattice_size_def
      stepback_def underlying_def flatRiskFreeRate_def maturityTime_def
      ex_engine_def ex_process_def ex_arguments_def ex_tree_def
      GeneralizedBlackScholesProcess_def FlatForward_def act365_def
      upt_rec numeral_2_eq_2 numeral_3_eq_3 power_int_def)

lemma ex_prices:
  "underlying (priceLattice ex_engine ex_arguments ex_tree) 0 0 = 25"
  "underlying (priceLattice ex_engine ex_arguments ex_tree) 0 1 = 100"
  "underlying (priceLattice ex_engine ex_arguments ex_tree) 0 2 = 400"
  by (simp_all add: underlying_def priceLattice_def BlackScholesLattice_def Let_def
      ex_tree_def)

lemma ex_calculate:
  "calculate ex_builder ex_engine ex_arguments ex_results =
     (None, \<lparr>results_value = 145 / 2, results_delta = 69 / 50,
             results_gamma = 31 / 11250, results_theta = 497 / 225\<rparr>)"
  by (simp add: calculate_unfold Let_def ex_payoff ex_tree_built ex_spot
      ex_values ex_prices ex_theta ex_results_def)

lemma ex_null_spot: "stateVariable (process ex_engine_null_spot) = 0"
  by (simp add: ex_engine_null_spot_def)

lemma ex_digital_payoff: "payoff ex_digital_arguments = OtherPayoff ex_digital"
  by (simp add: ex_digital_arguments_def)

lemma ex_constructed: "BinomialVanillaEngine_2 ex_process 2 = Inr ex_engine"
  by (simp add: BinomialVanillaEngine_2_def ex_engine_def)

lemma ex_put_payoff: "payoff ex_put_arguments = PlainVanillaPayoff Put 110"
  by (simp add: ex_put_arguments_def)

lemma ex_flat_tree_built:
  "new_tree ex_flat_builder (flatProcess ex_engine ex_put_arguments)
     (maturityTime ex_engine ex_put_arguments) (timeSteps ex_engine) 110 = Some ex_flat_tree"
  by (simp add: new_tree_def ex_flat_builder_def ex_flat_tree_def ex_engine_def ex_process_def
      flatProcess_def Let_def GeneralizedBlackScholesProcess_def)

lemma ex_flat_values:
  "valuesAtZero ex_engine ex_put_arguments ex_flat_tree = [10, 10, 10]"
  by (simp add: valuesAtZero_def Let_def priceLattice_def BlackScholesLattice_def
      initialize_def rollback_def DiscretizedVanillaOption_def lattice_size_def
      stepback_def underlying_def flatRiskFreeRate_def maturityTime_def
      ex_engine_def ex_process_def ex_put_arguments_def ex_flat_tree_def
      GeneralizedBlackScholesProcess_def FlatForward_def act365_def
      upt_rec numeral_2_eq_2 numeral_3_eq_3 power_int_def)

lemma ex_flat_prices:
  "underlying (priceLattice ex_engine ex_put_arguments ex_flat_tree) 0 0 = 100"
  "underlying (priceLattice ex_engine ex_put_arguments ex_flat_tree) 0 2 = 100"
  by (simp_all add: underlying_def priceLattice_def BlackScholesLattice_def Let_def
      ex_flat_tree_def)

subsection \<open>The constructor\<close>

text \<open>
  C6: for every requested step count \<open>N < 2\<close> (in particular \<open>N = 1\<close>) the constructor fails
  with the precondition error "at least 2 time steps required"; for every \<open>N \<ge> 2\<close> the
  check passes and the engine holds the process and \<open>N\<close>. The failure leaves no engine
  object, so no lattice can be built for it: \<^verbatim>\<open>calculate()\<close> needs an engine.
\<close>

theorem C6_time_steps_precondition:
  "(N < 2 \<longrightarrow> BinomialVanillaEngine_2 p N = Inl (TooFewTimeSteps N)) \<and>
   (2 \<le> N \<longrightarrow> BinomialVanillaEngine_2 p N = Inr \<lparr>process = p, timeSteps = N\<rparr>)"
  by (simp add: BinomialVanillaEngine_2_def)

theorem C6_time_steps_precondition_witness:
  "BinomialVanillaEngine_2 ex_process 1 = Inl (TooFewTimeSteps 1) \<and>
   BinomialVanillaEngine_2 ex_process 2 = Inr \<lparr>process = ex_process, timeSteps = 2\<rparr>"
  using C6_time_steps_precondition [of 1 ex_process]
    C6_time_steps_precondition [of 2 ex_process]
  by simp

subsection \<open>Failures of calculate\<close>

text \<open>
  C7: when the spot of the process is not strictly positive (zero included), the call
  fails with the precondition error "negative or null underlying given". It does so
  whatever the tree strategy \<open>T\<close> is and whatever the payoff is: the check of line 85
  comes before the tree is built, and the results object is left as it was.
\<close>

theorem C7_non_positive_spot:
  assumes "stateVariable (process e) \<le> 0"
  shows "calculate T e a rs = (Some NonPositiveUnderlying, rs)"
  using assms by (simp add: calculate_unfold Let_def)

theorem C7_non_positive_spot_witness:
  "calculate ex_builder ex_engine_null_spot ex_arguments ex_results =
     (Some NonPositiveUnderlying, ex_results)"
  using C7_non_positive_spot [of ex_engine_null_spot ex_builder ex_arguments ex_results]
  by (simp add: ex_null_spot)

text \<open>
  C8, as stated, fails: a call whose payoff is not plain and whose spot is not positive
  fails at line 85 with "negative or null underlying given", not with "non-plain payoff
  given".
\<close>

theorem C8_counterexample:
  "payoff ex_digital_arguments = OtherPayoff ex_digital \<and>
   stateVariable (process ex_engine_null_spot) = 0 \<and>
   fst (calculate ex_builder ex_engine_null_spot ex_digital_arguments ex_results) =
     Some NonPositiveUnderlying \<and>
   fst (calculate ex_builder ex_engine_null_spot ex_digital_arguments ex_results) \<noteq>
     Some NonPlainPayoff"
  by (simp add: calculate_unfold Let_def ex_null_spot ex_digital_payoff)

text \<open>
  C8, amended: for every pricing call whose payoff is not a plain vanilla payoff, the
  call fails with a precondition error, whatever the tree strategy is (no tree is built
  and nothing is rolled back), and the results object is left as it was. The error is
  "non-plain payoff given" when the spot is strictly positive, and the spot check's
  "negative or null underlying given" otherwise.
\<close>

theorem C8_non_plain_payoff:
  assumes "payoff a = OtherPayoff f"
  shows "calculate T e a rs =
     (Some (if 0 < stateVariable (process e) then NonPlainPayoff else NonPositiveUnderlying),
      rs)"
  using assms by (simp add: calculate_unfold Let_def)

theorem C8_non_plain_payoff_witness:
  "calculate ex_builder ex_engine ex_digital_arguments ex_results =
     (Some NonPlainPayoff, ex_results)"
  using C8_non_plain_payoff [OF ex_digital_payoff, of ex_builder ex_engine ex_results]
  by (simp add: ex_spot)

text \<open>
  C9, as stated, fails. The spec counts a degenerate node spacing, which makes the
  divisors of delta and gamma zero, among the internal-consistency violations, and the
  claim has every such call abort with nothing stored. \<^verbatim>\<open>calculate()\<close> has no check for
  it: the only check after the rollback is the node count of line 140. In the example
  the strategy has no spread between its factors, so the three prices at time 0 all
  equal the spot, 100; the call for a put struck at 110 raises nothing, returns normally
  and stores the value 10 over the 0 it found.
\<close>

theorem C9_counterexample:
  "new_tree ex_flat_builder (flatProcess ex_engine ex_put_arguments)
     (maturityTime ex_engine ex_put_arguments) (timeSteps ex_engine) 110 = Some ex_flat_tree \<and>
   underlying (priceLattice ex_engine ex_put_arguments ex_flat_tree) 0 2 -
     underlying (priceLattice ex_engine ex_put_arguments ex_flat_tree) 0 0 = 0 \<and>
   underlying (priceLattice ex_engine ex_put_arguments ex_flat_tree) 0 2 -
     stateVariable (process ex_engine) = 0 \<and>
   fst (calculate ex_flat_builder ex_engine ex_put_arguments ex_results) = None \<and>
   results_value ex_results = 0 \<and>
   results_value (snd (calculate ex_flat_builder ex_engine ex_put_arguments ex_results)) = 10"
  by (simp add: calculate_unfold Let_def ex_put_payoff ex_flat_tree_built ex_spot
      ex_flat_values ex_flat_prices ex_results_def)

text \<open>
  C9, amended: every pricing call in which \<^verbatim>\<open>calculate()\<close> raises a failure leaves the
  results object exactly as it found it: none of value, delta, gamma and theta is
  written. The failures are the precondition violations (spot not positive, payoff not
  plain, tree parameters refused) and the node count of line 140 not being 3; each comes
  before the first assignment of line 154. This holds whatever the lattice code leaves in
  \<open>va\<close> (first part), and so for the lattice code modelled here (second part). A
  degenerate node spacing is no failure of \<^verbatim>\<open>calculate()\<close>.
\<close>

theorem C9_failed_call_writes_nothing:
  "(fst (calculate_with nodes prices T e a rs) = Some err \<longrightarrow>
      snd (calculate_with nodes prices T e a rs) = rs \<and>
      (err = NonPositiveUnderlying \<or> err = NonPlainPayoff \<or> err = TreeRejected \<or>
       err = NotThreeNodes)) \<and>
   (fst (calculate T e a rs) = Some err \<longrightarrow> snd (calculate T e a rs) = rs)"
proof (intro conjI impI)
  assume failed: "fst (calculate_with nodes prices T e a rs) = Some err"
  show "snd (calculate_with nodes prices T e a rs) = rs"
    using calculate_with_failure [OF failed] by simp
  show "err = NonPositiveUnderlying \<or> err = NonPlainPayoff \<or> err = TreeRejected \<or>
      err = NotThreeNodes"
    using calculate_with_failure [OF failed] by simp
next
  assume failed: "fst (calculate T e a rs) = Some err"
  show "snd (calculate T e a rs) = rs"
    using calculate_failure [OF failed] by simp
qed

text \<open>
  The four failures, each with the results object untouched: one node value left where
  three are expected, a strategy that refuses its parameters, a payoff that is not
  plain, and a spot of 0.
\<close>

theorem C9_failed_call_writes_nothing_witness:
  "calculate_with ex_single_node latticePrices ex_builder ex_engine ex_arguments ex_results =
     (Some NotThreeNodes, ex_results) \<and>
   calculate ex_refusing_builder ex_engine ex_arguments ex_results =
     (Some TreeRejected, ex_results) \<and>
   calculate ex_builder ex_engine ex_digital_arguments ex_results =
     (Some NonPlainPayoff, ex_results) \<and>
   calculate ex_builder ex_engine_null_spot ex_arguments ex_results =
     (Some NonPositiveUnderlying, ex_results)"
proof -
  have nodes:
    "fst (calculate_with ex_single_node latticePrices ex_builder ex_engine ex_arguments
       ex_results) = Some NotThreeNodes"
    by (simp add: calculate_with_def Let_def ex_spot ex_payoff ex_tree_built
        ex_single_node_def)
  have refused:
    "fst (calculate ex_refusing_builder ex_engine ex_arguments ex_results) = Some TreeRejected"
    by (simp add: calculate_unfold Let_def ex_spot ex_payoff new_tree_def
        ex_refusing_builder_def)
  have not_plain:
    "fst (calculate ex_builder ex_engine ex_digital_arguments ex_results) = Some NonPlainPayoff"
    by (simp add: calculate_unfold Let_def ex_spot ex_digital_payoff)
  have null_spot:
    "fst (calculate ex_builder ex_engine_null_spot ex_arguments ex_results) =
       Some NonPositiveUnderlying"
    by (simp add: calculate_unfold Let_def ex_null_spot)
  have "snd (calculate_with ex_single_node latticePrices ex_builder ex_engine ex_arguments
       ex_results) = ex_results"
    using C9_failed_call_writes_nothing
      [of ex_single_node latticePrices ex_builder ex_engine ex_arguments ex_results
        NotThreeNodes] nodes
    by simp
  moreover have
    "snd (calculate ex_refusing_builder ex_engine ex_arguments ex_results) = ex_results"
    using C9_failed_call_writes_nothing
      [of _ _ ex_refusing_builder ex_engine ex_arguments ex_results TreeRejected] refused
    by simp
  moreover have
    "snd (calculate ex_builder ex_engine ex_digital_arguments ex_results) = ex_results"
    using C9_failed_call_writes_nothing
      [of _ _ ex_builder ex_engine ex_digital_arguments ex_results NonPlainPayoff] not_plain
    by simp
  moreover have
    "snd (calculate ex_builder ex_engine_null_spot ex_arguments ex_results) = ex_results"
    using C9_failed_call_writes_nothing
      [of _ _ ex_builder ex_engine_null_spot ex_arguments ex_results NonPositiveUnderlying]
      null_spot
    by simp
  ultimately show ?thesis
    using nodes refused not_plain null_spot by (simp add: prod_eq_iff)
qed

subsection \<open>The flattened volatility\<close>

text \<open>
  C10: the process from which \<^verbatim>\<open>calculate()\<close> builds the tree has a constant volatility,
  and that constant is the Black volatility of the input surface at the last exercise
  date and at a strike equal to the current spot; the strike of the option plays no
  part. The theorem states it on what the call does. The strategy
  \<open>accepts_volatility d x v g\<close> reads the volatility of the process it is handed, at any
  date \<open>d\<close> and strike \<open>x\<close>, and refuses unless it is \<open>v\<close>. For a call with a positive
  spot and a plain payoff, which is a call that reaches line 121, the strategy is
  refused exactly when \<open>v\<close> is not the volatility of the input surface at the last
  exercise date and the spot.
\<close>

theorem C10_flat_volatility:
  assumes "0 < stateVariable (process e)" and "payoff a = PlainVanillaPayoff ty strike"
  shows "(fst (calculate (accepts_volatility d x v g) e a rs) = Some TreeRejected) =
         (v \<noteq> blackVol (blackVolatility (process e)) (lastDate (exercise a))
                 (stateVariable (process e)))"
  unfolding tree_built_from_flatProcess [OF assms]
  by (simp add: accepts_volatility_def flatProcess_volatility)

text \<open>
  In the worked example the smile gives 20% at the spot (100) and 21% at the strike of
  the option (110). Probed at the last exercise date and at the strike of the option, the
  process the tree is built from shows 20%, not 21%.
\<close>

theorem C10_flat_volatility_witness:
  "blackVol (blackVolatility (process ex_engine)) (lastDate (exercise ex_arguments)) 100
     = 1 / 5 \<and>
   blackVol (blackVolatility (process ex_engine)) (lastDate (exercise ex_arguments)) 110
     = 21 / 100 \<and>
   fst (calculate (accepts_volatility 365 110 (1 / 5) ex_geometry) ex_engine ex_arguments
     ex_results) \<noteq> Some TreeRejected \<and>
   fst (calculate (accepts_volatility 365 110 (21 / 100) ex_geometry) ex_engine ex_arguments
     ex_results) = Some TreeRejected"
proof -
  have spot: "0 < stateVariable (process ex_engine)"
    by (simp add: ex_spot)
  have at_spot:
    "blackVol (blackVolatility (process ex_engine)) (lastDate (exercise ex_arguments))
       (stateVariable (process ex_engine)) = 1 / 5"
    by (simp add: ex_engine_def ex_process_def ex_smile_def ex_arguments_def
        GeneralizedBlackScholesProcess_def)
  have smile:
    "blackVol (blackVolatility (process ex_engine)) (lastDate (exercise ex_arguments)) 100
       = 1 / 5"
    "blackVol (blackVolatility (process ex_engine)) (lastDate (exercise ex_arguments)) 110
       = 21 / 100"
    by (simp_all add: ex_engine_def ex_process_def ex_smile_def ex_arguments_def
        GeneralizedBlackScholesProcess_def)
  from C10_flat_volatility [OF spot ex_payoff, of 365 110 "1 / 5" ex_geometry ex_results]
    C10_flat_volatility [OF spot ex_payoff, of 365 110 "21 / 100" ex_geometry ex_results]
    at_spot smile
  show ?thesis
    by simp
qed

subsection \<open>Value, delta and gamma\<close>

text \<open>
  In the next theorems the first two hypotheses name the strike of the plain payoff and
  the tree the call built; by \<open>calculate_success\<close> every call that returns normally has
  both.

  C4: for every successful pricing call, the reported value is \<open>p0\<close>: the entry of index
  1, the middle one, of the vector of node values left by the rollback to time 0, which
  has exactly 3 entries.
\<close>

theorem C4_value_is_mid_node:
  assumes "payoff a = PlainVanillaPayoff ty strike"
    and "new_tree T (flatProcess e a) (maturityTime e a) (timeSteps e) strike = Some t"
    and "calculate T e a rs = (None, rs')"
  shows "length (valuesAtZero e a t) = 3 \<and> results_value rs' = valuesAtZero e a t ! 1"
proof
  show "length (valuesAtZero e a t) = 3"
    using calculate_success [OF assms(3)] assms(1,2) by auto
  show "results_value rs' = valuesAtZero e a t ! 1"
    by (simp add: calculate_results [OF assms] Let_def)
qed

theorem C4_value_is_mid_node_witness:
  "fst (calculate ex_builder ex_engine ex_arguments ex_results) = None \<and>
   results_value (snd (calculate ex_builder ex_engine ex_arguments ex_results)) =
     valuesAtZero ex_engine ex_arguments ex_tree ! 1 \<and>
   valuesAtZero ex_engine ex_arguments ex_tree ! 1 = 145 / 2"
  using C4_value_is_mid_node [OF ex_payoff ex_tree_built ex_calculate]
  by (simp add: ex_calculate ex_values)

text \<open>
  C3: for every successful pricing call, the reported delta is
  \<open>(p0u - p0d) / (s0u - s0d)\<close>, where \<open>p0u\<close> and \<open>p0d\<close> are the node values at the highest
  node (index 2) and the lowest node (index 0) at time 0, and \<open>s0u\<close>, \<open>s0d\<close> are the prices
  of the underlying that the lattice gives for these two nodes.
\<close>

theorem C3_delta_central_difference:
  assumes "payoff a = PlainVanillaPayoff ty strike"
    and "new_tree T (flatProcess e a) (maturityTime e a) (timeSteps e) strike = Some t"
    and "calculate T e a rs = (None, rs')"
  shows "results_delta rs' =
     (valuesAtZero e a t ! 2 - valuesAtZero e a t ! 0) /
     (underlying (priceLattice e a t) 0 2 - underlying (priceLattice e a t) 0 0)"
  by (simp add: calculate_results [OF assms] Let_def)

theorem C3_delta_central_difference_witness:
  "fst (calculate ex_builder ex_engine ex_arguments ex_results) = None \<and>
   results_delta (snd (calculate ex_builder ex_engine ex_arguments ex_results)) =
     (valuesAtZero ex_engine ex_arguments ex_tree ! 2 -
      valuesAtZero ex_engine ex_arguments ex_tree ! 0) /
     (underlying (priceLattice ex_engine ex_arguments ex_tree) 0 2 -
      underlying (priceLattice ex_engine ex_arguments ex_tree) 0 0) \<and>
   results_delta (snd (calculate ex_builder ex_engine ex_arguments ex_results)) = 69 / 50"
  using C3_delta_central_difference [OF ex_payoff ex_tree_built ex_calculate]
  by (simp add: ex_calculate)

text \<open>
  C2: for every successful pricing call, the reported gamma is
  \<open>(delta_up - delta_down) / ((s0u - s0d) / 2)\<close> with
  \<open>delta_up = (p0u - p0) / (s0u - s0)\<close> and \<open>delta_down = (p0d - p0) / (s0d - s0)\<close>, where
  \<open>p0d\<close>, \<open>p0\<close>, \<open>p0u\<close> are the three node values at time 0 and \<open>s0d\<close>, \<open>s0\<close>, \<open>s0u\<close> the
  prices of the underlying at the same three nodes. The source takes \<open>s0\<close> from the
  process (line 84); it is the price at the middle node because the lattice is centred on
  the spot of the process the tree was built from.
\<close>

theorem C2_gamma_from_one_sided_deltas:
  assumes "payoff a = PlainVanillaPayoff ty strike"
    and "new_tree T (flatProcess e a) (maturityTime e a) (timeSteps e) strike = Some t"
    and "calculate T e a rs = (None, rs')"
  shows
    "(let va = valuesAtZero e a t; lattice = priceLattice e a t;
          p0d = va ! 0; p0 = va ! 1; p0u = va ! 2;
          s0d = underlying lattice 0 0; s0 = underlying lattice 0 1;
          s0u = underlying lattice 0 2;
          delta_up = (p0u - p0) / (s0u - s0);
          delta_down = (p0d - p0) / (s0d - s0)
      in s0 = stateVariable (process e) \<and>
         results_gamma rs' = (delta_up - delta_down) / ((s0u - s0d) / 2))"
proof -
  have mid: "underlying (priceLattice e a t) 0 1 = stateVariable (process e)"
    by (simp only: underlying_mid new_tree_x0 [OF assms(2)] stateVariable_flatProcess)
  show ?thesis
    unfolding Let_def mid
    by (simp add: calculate_results [OF assms] Let_def)
qed

theorem C2_gamma_from_one_sided_deltas_witness:
  "fst (calculate ex_builder ex_engine ex_arguments ex_results) = None \<and>
   underlying (priceLattice ex_engine ex_arguments ex_tree) 0 1 =
     stateVariable (process ex_engine) \<and>
   results_gamma (snd (calculate ex_builder ex_engine ex_arguments ex_results)) =
     ((1035 / 2 - 145 / 2) / (400 - 100) - (0 - 145 / 2) / (25 - 100)) / ((400 - 25) / 2)"
  using C2_gamma_from_one_sided_deltas [OF ex_payoff ex_tree_built ex_calculate]
  by (simp add: ex_calculate ex_values ex_prices ex_spot Let_def)

subsection \<open>Theta\<close>

text \<open>
  C5: for every successful pricing call, theta is \<^verbatim>\<open>blackScholesTheta\<close> of the process
  and of the value, delta and gamma the call has just stored: a closed form of these
  three numbers and of the spot, the rate, the dividend yield and the volatility of the
  process, by the Black-Scholes equation. It takes no tree and no lattice, so nothing
  is built, rolled back or priced again for it.
\<close>

theorem C5_theta_closed_form:
  assumes "calculate T e a rs = (None, rs')"
  shows "results_theta rs' =
           blackScholesTheta (process e) (results_value rs') (results_delta rs')
             (results_gamma rs') \<and>
         results_theta rs' =
           (let S = stateVariable (process e);
                r = zeroRateAt (riskFreeRate (process e)) 0;
                q = zeroRateAt (dividendYield (process e)) 0;
                sigma = localVol (blackVolatility (process e)) 0 S
            in r * results_value rs' - (r - q) * S * results_delta rs'
               - (1 / 2) * sigma * sigma * S * S * results_gamma rs')"
proof -
  obtain ty strike t where built: "payoff a = PlainVanillaPayoff ty strike"
    "new_tree T (flatProcess e a) (maturityTime e a) (timeSteps e) strike = Some t"
    using calculate_success [OF assms] by blast
  have "results_theta rs' =
          blackScholesTheta (process e) (results_value rs') (results_delta rs')
            (results_gamma rs')"
    by (simp add: calculate_results [OF built assms] Let_def)
  then show ?thesis
    by (simp add: blackScholesTheta_def Let_def)
qed

theorem C5_theta_closed_form_witness:
  "fst (calculate ex_builder ex_engine ex_arguments ex_results) = None \<and>
   results_theta (snd (calculate ex_builder ex_engine ex_arguments ex_results)) =
     0 * (145 / 2) - (0 - 1 / 50) * 100 * (69 / 50)
       - (1 / 2) * (1 / 5) * (1 / 5) * 100 * 100 * (31 / 11250)"
  using C5_theta_closed_form [OF ex_calculate]
  by (simp add: ex_calculate)

subsection \<open>Three nodes at time 0\<close>

text \<open>
  C1: for every step count \<open>N \<ge> 2\<close> accepted by the constructor, the rollback to time 0
  leaves a vector of exactly 3 node values, whatever tree was built, so the call never
  fails with "Expect 3 nodes in grid at 0 step". A call with a positive spot, a plain
  payoff and a tree strategy that accepts its parameters returns normally; the witness
  is the boundary case \<open>N = 2\<close>.
\<close>

theorem C1_three_nodes_at_time_zero:
  assumes "2 \<le> N" and "BinomialVanillaEngine_2 p N = Inr e"
  shows "length (valuesAtZero e a t) = 3 \<and>
         fst (calculate T e a rs) \<noteq> Some NotThreeNodes \<and>
         (0 < stateVariable p \<and> payoff a = PlainVanillaPayoff ty strike \<and>
          T (flatProcess e a) (maturityTime e a) N strike \<noteq> None
          \<longrightarrow> fst (calculate T e a rs) = None)"
proof -
  have e: "e = \<lparr>process = p, timeSteps = N\<rparr>"
    using assms by (simp add: BinomialVanillaEngine_2_def)
  have never: "fst (calculate T e a rs) \<noteq> Some NotThreeNodes"
    by (simp add: calculate_unfold Let_def length_valuesAtZero
        split: payoff.splits option.splits)
  have returns: "fst (calculate T e a rs) = None"
    if "0 < stateVariable p" and "payoff a = PlainVanillaPayoff ty strike"
      and "T (flatProcess e a) (maturityTime e a) N strike \<noteq> None"
    using that
    by (auto simp: calculate_unfold Let_def length_valuesAtZero new_tree_def e
        split: option.splits)
  from never returns show ?thesis
    by (simp add: length_valuesAtZero)
qed

theorem C1_three_nodes_at_time_zero_witness:
  "BinomialVanillaEngine_2 ex_process 2 = Inr ex_engine \<and>
   length (valuesAtZero ex_engine ex_arguments ex_tree) = 3 \<and>
   fst (calculate ex_builder ex_engine ex_arguments ex_results) = None"
proof -
  have two: "(2::nat) \<le> 2"
    by simp
  have spot: "0 < stateVariable ex_process"
    by (simp add: ex_process_def GeneralizedBlackScholesProcess_def)
  have accepted:
    "ex_builder (flatProcess ex_engine ex_arguments) (maturityTime ex_engine ex_arguments) 2 110
       \<noteq> None"
    by (simp add: ex_builder_def)
  from C1_three_nodes_at_time_zero [OF two ex_constructed, of ex_arguments ex_tree ex_builder
      ex_results Call 110] spot ex_payoff accepted ex_constructed
  show ?thesis
    by simp
qed

end
